theory Spec2Isabelle
  imports Main
begin

section \<open>The cart store of \<open>CartContext\<close>: data model\<close>

text \<open>
  The cart store is the reducer \<open>cartReducer\<close> together with the two effects of
  \<open>CartProvider\<close> (\<open>loadCart\<close> and the save effect). JavaScript values are modelled as
  follows.

  \<^item> A number is an integer or \<open>NaN\<close>. Prices and quantities are integers (prices in the
    smallest currency unit); floating-point rounding and the infinities are outside the
    model. \<open>NaN\<close> is kept because arithmetic on an absent (\<open>undefined\<close>) price produces it.
  \<^item> An optional field is an \<open>option\<close>: \<open>None\<close> is \<open>undefined\<close>/\<open>null\<close>. Strict equality
    \<open>===\<close> on identifiers is equality on \<open>string option\<close> (\<open>undefined === undefined\<close> holds).
  \<^item> The quantity of a stored line item is an integer.
\<close>

datatype jsnum = Num int | NaN

fun js_add :: "jsnum \<Rightarrow> jsnum \<Rightarrow> jsnum" where
  "js_add (Num a) (Num b) = Num (a + b)"
| "js_add _ _ = NaN"

fun js_mul :: "jsnum \<Rightarrow> jsnum \<Rightarrow> jsnum" where
  "js_mul (Num a) (Num b) = Num (a * b)"
| "js_mul _ _ = NaN"

text \<open>Conversion of a possibly absent numeric field: \<open>undefined\<close> becomes \<open>NaN\<close>.\<close>

fun to_number :: "int option \<Rightarrow> jsnum" where
  "to_number None = NaN"
| "to_number (Some n) = Num n"

text \<open>The product descriptor handed to \<open>addToCart\<close>; every field may be absent.\<close>

record product =
  prod_id :: "string option"
  prod_name :: "string option"
  prod_category :: "string option"
  prod_price :: "int option"
  prod_imageUrl :: "string option"

record item =
  item_id :: "string option"
  item_name :: "string option"
  category :: "string option"
  price :: "int option"
  imageUrl :: "string option"
  quantity :: int

record cart_state =
  items :: "item list"
  total :: jsnum
  itemCount :: int
  loading :: bool
  error :: "string option"

definition initialState :: cart_state where
  "initialState = \<lparr>items = [], total = Num 0, itemCount = 0, loading = False, error = None\<rparr>"

text \<open>
  The object read back from the durable store. \<open>JSON.parse\<close> never yields \<open>NaN\<close>, so the
  numeric fields are integers when present.
\<close>

record blob =
  blob_items :: "item list option"
  blob_total :: "int option"
  blob_itemCount :: "int option"

datatype action =
    LOAD_CART blob
  | ADD_TO_CART product "int option"
  | REMOVE_FROM_CART "string option"
  | UPDATE_QUANTITY "string option" int
  | CLEAR_CART
  | SET_LOADING bool
  | SET_ERROR "string option"
  | OTHER

section \<open>Array helpers\<close>

text \<open>\<open>Array.prototype.findIndex\<close>: the index of the first match, \<open>-1\<close> when there is none.\<close>

fun findIndex :: "('a \<Rightarrow> bool) \<Rightarrow> 'a list \<Rightarrow> int" where
  "findIndex P [] = - 1"
| "findIndex P (x # xs) =
     (if P x then 0
      else (let r = findIndex P xs in if r < 0 then - 1 else r + 1))"

text \<open>\<open>Array.prototype.map\<close> with a callback of element and index; \<open>k\<close> is the index of the head.\<close>

fun map_idx :: "('a \<Rightarrow> int \<Rightarrow> 'b) \<Rightarrow> int \<Rightarrow> 'a list \<Rightarrow> 'b list" where
  "map_idx f k [] = []"
| "map_idx f k (x # xs) = f x k # map_idx f (k + 1) xs"

text \<open>The two \<open>reduce\<close> calls that every mutating branch of the reducer repeats.\<close>

definition reduce_total :: "item list \<Rightarrow> jsnum" where
  "reduce_total xs =
     foldl (\<lambda>sum i. js_add sum (js_mul (to_number (price i)) (Num (quantity i)))) (Num 0) xs"

definition reduce_count :: "item list \<Rightarrow> int" where
  "reduce_count xs = foldl (\<lambda>sum i. sum + quantity i) 0 xs"

text \<open>The object spread \<open>{ ...product, quantity }\<close>.\<close>

definition line_item :: "product \<Rightarrow> int \<Rightarrow> item" where
  "line_item p q =
     \<lparr>item_id = prod_id p, item_name = prod_name p, category = prod_category p,
      price = prod_price p, imageUrl = prod_imageUrl p, quantity = q\<rparr>"

section \<open>The reducer\<close>

text \<open>
  \<open>quantity = 1\<close> in the destructuring of the \<open>ADD_TO_CART\<close> payload is the \<open>case\<close> on the
  optional quantity; the local \<open>quantity\<close> of the source is \<open>qty\<close> here, since \<open>quantity\<close> is
  the field selector. The \<open>UPDATE_QUANTITY\<close> branch calls the reducer again with a
  \<open>REMOVE_FROM_CART\<close> action when the quantity is not positive.
\<close>

function cartReducer :: "cart_state \<Rightarrow> action \<Rightarrow> cart_state" where
  "cartReducer state (LOAD_CART payload) =
     state\<lparr>items := (case blob_items payload of None \<Rightarrow> [] | Some xs \<Rightarrow> xs),
           total := (case blob_total payload of None \<Rightarrow> Num 0
                     | Some t \<Rightarrow> if t = 0 then Num 0 else Num t),
           itemCount := (case blob_itemCount payload of None \<Rightarrow> 0
                     | Some c \<Rightarrow> if c = 0 then 0 else c),
           loading := False, error := None\<rparr>"
| "cartReducer state (ADD_TO_CART product qopt) =
     (let qty = (case qopt of None \<Rightarrow> 1 | Some q \<Rightarrow> q);
          existingItemIndex = findIndex (\<lambda>i. item_id i = prod_id product) (items state);
          newItems =
            (if existingItemIndex \<ge> 0
             then map_idx (\<lambda>i index. if index = existingItemIndex
                                      then i\<lparr>quantity := quantity i + qty\<rparr>
                                      else i) 0 (items state)
             else items state @ [line_item product qty]);
          newTotal = reduce_total newItems;
          newItemCount = reduce_count newItems
      in state\<lparr>items := newItems, total := newTotal, itemCount := newItemCount,
               loading := False, error := None\<rparr>)"
| "cartReducer state (REMOVE_FROM_CART productId) =
     (let newItems = filter (\<lambda>i. item_id i \<noteq> productId) (items state);
          newTotal = reduce_total newItems;
          newItemCount = reduce_count newItems
      in state\<lparr>items := newItems, total := newTotal, itemCount := newItemCount,
               loading := False, error := None\<rparr>)"
| "cartReducer state (UPDATE_QUANTITY productId qty) =
     (if qty \<le> 0 then cartReducer state (REMOVE_FROM_CART productId)
      else
       (let newItems = map (\<lambda>i. if item_id i = productId then i\<lparr>quantity := qty\<rparr> else i)
                           (items state);
            newTotal = reduce_total newItems;
            newItemCount = reduce_count newItems
        in state\<lparr>items := newItems, total := newTotal, itemCount := newItemCount,
                 loading := False, error := None\<rparr>))"
| "cartReducer state CLEAR_CART =
     state\<lparr>items := [], total := Num 0, itemCount := 0, loading := False, error := None\<rparr>"
| "cartReducer state (SET_LOADING b) = state\<lparr>loading := b\<rparr>"
| "cartReducer state (SET_ERROR e) = state\<lparr>error := e, loading := False\<rparr>"
| "cartReducer state OTHER = state"
  by pat_completeness auto
termination
  by (relation "measure (\<lambda>(s, a). case a of UPDATE_QUANTITY _ _ \<Rightarrow> 1 | _ \<Rightarrow> 0)") auto

text \<open>The four operations that \<open>CartProvider\<close> exposes; each dispatches one action.\<close>

definition addToCart :: "cart_state \<Rightarrow> product \<Rightarrow> int option \<Rightarrow> cart_state" where
  "addToCart state product qopt =
     cartReducer state (ADD_TO_CART product (Some (case qopt of None \<Rightarrow> 1 | Some q \<Rightarrow> q)))"

definition removeFromCart :: "cart_state \<Rightarrow> string option \<Rightarrow> cart_state" where
  "removeFromCart state productId = cartReducer state (REMOVE_FROM_CART productId)"

definition updateQuantity :: "cart_state \<Rightarrow> string option \<Rightarrow> int \<Rightarrow> cart_state" where
  "updateQuantity state productId q = cartReducer state (UPDATE_QUANTITY productId q)"

definition clearCart :: "cart_state \<Rightarrow> cart_state" where
  "clearCart state = cartReducer state CLEAR_CART"

section \<open>The effects of \<open>CartProvider\<close>\<close>

text \<open>
  The durable store is \<open>localStorage\<close>. A slot holds the empty string, the serialisation
  of an object with the three cart fields, or text that \<open>JSON.parse\<close> rejects. Whether
  \<open>getItem\<close> and \<open>setItem\<close> throw is decided by the environment, so it is part of the
  world; \<open>console\<close> collects what \<open>console.error\<close> prints. Dispatches are applied to the
  state in the order in which they are issued.
\<close>

datatype stored = Empty | Json blob | Unparseable

datatype exn = StorageError | SyntaxError

record world =
  store :: "string \<Rightarrow> stored option"
  read_fails :: bool
  write_fails :: bool
  console :: "string list"

definition getItem :: "world \<Rightarrow> string \<Rightarrow> exn + stored option" where
  "getItem w key = (if read_fails w then Inl StorageError else Inr (store w key))"

definition setItem :: "world \<Rightarrow> string \<Rightarrow> stored \<Rightarrow> exn + world" where
  "setItem w key v =
     (if write_fails w then Inl StorageError else Inr (w\<lparr>store := (store w)(key \<mapsto> v)\<rparr>))"

fun JSON_parse :: "stored \<Rightarrow> exn + blob" where
  "JSON_parse (Json b) = Inr b"
| "JSON_parse Empty = Inl SyntaxError"
| "JSON_parse Unparseable = Inl SyntaxError"

text \<open>
  \<open>JSON.stringify\<close> of the object \<open>{items, total, itemCount}\<close> built by the save effect;
  it writes \<open>NaN\<close> as \<open>null\<close>.
\<close>

definition JSON_stringify :: "cart_state \<Rightarrow> stored" where
  "JSON_stringify state =
     Json \<lparr>blob_items = Some (items state),
           blob_total = (case total state of Num n \<Rightarrow> Some n | NaN \<Rightarrow> None),
           blob_itemCount = Some (itemCount state)\<rparr>"

definition console_error :: "world \<Rightarrow> string \<Rightarrow> world" where
  "console_error w msg = w\<lparr>console := console w @ [msg]\<rparr>"

text \<open>\<open>currentUser?.uid || 'guest'\<close>, with \<open>currentUser\<close> given by its \<open>uid\<close> when there is one.\<close>

definition userId :: "string option \<Rightarrow> string" where
  "userId currentUser =
     (case currentUser of None \<Rightarrow> ''guest''
      | Some uid \<Rightarrow> if uid = [] then ''guest'' else uid)"

definition cart_key :: "string option \<Rightarrow> string" where
  "cart_key currentUser = ''cart_'' @ userId currentUser"

text \<open>
  \<open>loadCart\<close>: the body of the \<open>try\<close> dispatches \<open>SET_LOADING\<close>, reads the slot and
  dispatches \<open>LOAD_CART\<close> or \<open>CLEAR_CART\<close>; an exception of \<open>getItem\<close> or \<open>JSON.parse\<close>
  reaches the \<open>catch\<close>, which logs and dispatches \<open>SET_ERROR\<close>.
\<close>

definition loadCart :: "string option \<Rightarrow> world \<Rightarrow> cart_state \<Rightarrow> cart_state \<times> world" where
  "loadCart currentUser w state =
     (let state1 = cartReducer state (SET_LOADING True);
          failed = (cartReducer state1 (SET_ERROR (Some ''Failed to load cart'')),
                    console_error w ''Error loading cart:'')
      in case getItem w (cart_key currentUser) of
           Inl e \<Rightarrow> failed
         | Inr None \<Rightarrow> (cartReducer state1 CLEAR_CART, w)
         | Inr (Some Empty) \<Rightarrow> (cartReducer state1 CLEAR_CART, w)
         | Inr (Some savedCart) \<Rightarrow>
             (case JSON_parse savedCart of
                Inl e \<Rightarrow> failed
              | Inr parsedCart \<Rightarrow> (cartReducer state1 (LOAD_CART parsedCart), w)))"

text \<open>
  The save effect: it runs after a state change, writes only when \<open>loading\<close> is false,
  and its \<open>catch\<close> only logs. It dispatches nothing, so the state it returns is the one
  it was given.
\<close>

definition saveCart :: "string option \<Rightarrow> world \<Rightarrow> cart_state \<Rightarrow> cart_state \<times> world" where
  "saveCart currentUser w state =
     (if \<not> loading state
      then (case setItem w (cart_key currentUser) (JSON_stringify state) of
              Inl e \<Rightarrow> (state, console_error w ''Error saving cart:'')
            | Inr w' \<Rightarrow> (state, w'))
      else (state, w))"

text \<open>A mutation as the application sees it: the dispatch, then the save effect.\<close>

definition mutate :: "string option \<Rightarrow> world \<Rightarrow> cart_state \<Rightarrow> action \<Rightarrow> cart_state \<times> world" where
  "mutate currentUser w state a = saveCart currentUser w (cartReducer state a)"

text \<open>Running a sequence of dispatched actions from a state.\<close>

definition run :: "cart_state \<Rightarrow> action list \<Rightarrow> cart_state" where
  "run state acts = foldl cartReducer state acts"

section \<open>What the specification says of a state\<close>

text \<open>The sums of the data model, written as recursion over the items.\<close>

fun sum_price_quantity :: "item list \<Rightarrow> jsnum" where
  "sum_price_quantity [] = Num 0"
| "sum_price_quantity (i # is) =
     js_add (js_mul (to_number (price i)) (Num (quantity i))) (sum_price_quantity is)"

fun sum_quantity :: "item list \<Rightarrow> int" where
  "sum_quantity [] = 0"
| "sum_quantity (i # is) = quantity i + sum_quantity is"

definition derived_consistent :: "cart_state \<Rightarrow> bool" where
  "derived_consistent state \<longleftrightarrow>
     total state = sum_price_quantity (items state) \<and>
     itemCount state = sum_quantity (items state)"

definition unique_ids :: "cart_state \<Rightarrow> bool" where
  "unique_ids state \<longleftrightarrow> distinct (map item_id (items state))"

text \<open>The actions behind the operations of the store.\<close>

fun is_edit :: "action \<Rightarrow> bool" where
  "is_edit (ADD_TO_CART p q) = True"
| "is_edit (REMOVE_FROM_CART pid) = True"
| "is_edit (UPDATE_QUANTITY pid q) = True"
| "is_edit _ = False"

fun is_mutation :: "action \<Rightarrow> bool" where
  "is_mutation CLEAR_CART = True"
| "is_mutation a = is_edit a"

text \<open>Every product added by the action carries a price.\<close>

fun priced :: "action \<Rightarrow> bool" where
  "priced (ADD_TO_CART p q) = (prod_price p \<noteq> None)"
| "priced _ = True"

text \<open>The line item carries a price.\<close>

definition has_price :: "item \<Rightarrow> bool" where
  "has_price i \<longleftrightarrow> price i \<noteq> None"

text \<open>The quantity stored for an id, \<open>0\<close> when the cart has no line item with it.\<close>

definition quantity_of :: "cart_state \<Rightarrow> string option \<Rightarrow> int" where
  "quantity_of state pid =
     (case find (\<lambda>i. item_id i = pid) (items state) of None \<Rightarrow> 0 | Some i \<Rightarrow> quantity i)"

text \<open>
  The \<open>ADD_TO_CART\<close> branch computes its item list by index; \<open>add_item\<close> is the same list
  by recursion, which is what the proofs use.
\<close>

fun add_item :: "product \<Rightarrow> int \<Rightarrow> item list \<Rightarrow> item list" where
  "add_item p q [] = [line_item p q]"
| "add_item p q (i # is) =
     (if item_id i = prod_id p then i\<lparr>quantity := quantity i + q\<rparr> # is
      else i # add_item p q is)"

section \<open>Concrete inputs\<close>

definition sku1 :: product where
  "sku1 = \<lparr>prod_id = Some ''sku1'', prod_name = Some ''Mug'', prod_category = None,
           prod_price = Some 1000, prod_imageUrl = None\<rparr>"

definition sku2 :: product where
  "sku2 = \<lparr>prod_id = Some ''sku2'', prod_name = Some ''Cap'', prod_category = None,
           prod_price = Some 250, prod_imageUrl = None\<rparr>"

text \<open>A descriptor with neither \<open>id\<close> nor \<open>price\<close>.\<close>

definition nameless :: product where
  "nameless = \<lparr>prod_id = None, prod_name = Some ''Mug'', prod_category = None,
               prod_price = None, prod_imageUrl = None\<rparr>"

text \<open>The cart after \<open>addToCart(sku1)\<close> on the initial state.\<close>

definition one_mug :: cart_state where
  "one_mug = \<lparr>items = [line_item sku1 1], total = Num 1000, itemCount = 1,
              loading = False, error = None\<rparr>"

text \<open>Worlds with an empty store, a failing read, a failing write, a corrupt slot.\<close>

definition quiet_world :: world where
  "quiet_world = \<lparr>store = (\<lambda>k. None), read_fails = False, write_fails = False, console = []\<rparr>"

definition unreadable_world :: world where
  "unreadable_world = quiet_world\<lparr>read_fails := True\<rparr>"

definition unwritable_world :: world where
  "unwritable_world = quiet_world\<lparr>write_fails := True\<rparr>"

definition corrupt_world :: world where
  "corrupt_world = quiet_world\<lparr>store := (\<lambda>k. if k = ''cart_guest'' then Some Unparseable else None)\<rparr>"

text \<open>A persisted object whose \<open>total\<close> is not the sum over its items.\<close>

definition stale_blob :: blob where
  "stale_blob = \<lparr>blob_items = Some [line_item sku1 1], blob_total = Some 5,
                 blob_itemCount = Some 1\<rparr>"

definition stale_world :: world where
  "stale_world = quiet_world\<lparr>store := (\<lambda>k. if k = ''cart_guest'' then Some (Json stale_blob) else None)\<rparr>"

section \<open>Properties of the array helpers\<close>

lemma js_add_zero_left: "js_add (Num 0) x = x"
  by (cases x) simp_all

lemma js_add_assoc: "js_add (js_add a b) c = js_add a (js_add b c)"
  by (cases a; cases b; cases c) simp_all

lemma foldl_total_acc:
  "foldl (\<lambda>sum i. js_add sum (js_mul (to_number (price i)) (Num (quantity i)))) acc xs
   = js_add acc (sum_price_quantity xs)"
proof (induction xs arbitrary: acc)
  case Nil
  show ?case by (cases acc) simp_all
next
  case (Cons x xs)
  show ?case by (simp add: Cons.IH js_add_assoc)
qed

lemma reduce_total_sum: "reduce_total xs = sum_price_quantity xs"
  by (simp add: reduce_total_def foldl_total_acc js_add_zero_left)

lemma foldl_count_acc: "foldl (\<lambda>sum i. sum + quantity i) acc xs = acc + sum_quantity xs"
  by (induction xs arbitrary: acc) simp_all

lemma reduce_count_sum: "reduce_count xs = sum_quantity xs"
  by (simp add: reduce_count_def foldl_count_acc)

lemma map_idx_above: "t < k \<Longrightarrow> map_idx (\<lambda>x j. if j = t then f x else x) k xs = xs"
  by (induction xs arbitrary: k) simp_all

lemma map_idx_shift:
  "map_idx (\<lambda>x j. if j = t + 1 then f x else x) (k + 1) xs
   = map_idx (\<lambda>x j. if j = t then f x else x) k xs"
proof (induction xs arbitrary: k)
  case Nil
  show ?case by simp
next
  case (Cons x xs)
  have "map_idx (\<lambda>x j. if j = t + 1 then f x else x) (k + 1 + 1) xs
        = map_idx (\<lambda>x j. if j = t then f x else x) (k + 1) xs"
    by (rule Cons.IH)
  then show ?case by simp
qed

lemma findIndex_ge: "- 1 \<le> findIndex P xs"
  by (induction xs) (simp_all add: Let_def)

lemma findIndex_neg_iff: "findIndex P xs < 0 \<longleftrightarrow> (\<forall>x \<in> set xs. \<not> P x)"
  using findIndex_ge [of P] by (induction xs) (auto simp: Let_def)

lemma add_item_by_index:
  "(if findIndex (\<lambda>i. item_id i = prod_id p) xs \<ge> 0
    then map_idx (\<lambda>i index. if index = findIndex (\<lambda>i. item_id i = prod_id p) xs
                             then i\<lparr>quantity := quantity i + q\<rparr> else i) 0 xs
    else xs @ [line_item p q]) = add_item p q xs"
proof (induction xs)
  case Nil
  show ?case by simp
next
  case (Cons x xs)
  show ?case
  proof (cases "item_id x = prod_id p")
    case True
    then show ?thesis by (simp add: map_idx_above)
  next
    case False
    show ?thesis
    proof (cases "findIndex (\<lambda>i. item_id i = prod_id p) xs < 0")
      case True
      with False Cons.IH show ?thesis by (simp add: Let_def)
    next
      case neg: False
      have "map_idx (\<lambda>i index. if index = findIndex (\<lambda>i. item_id i = prod_id p) xs + 1
                                then i\<lparr>quantity := quantity i + q\<rparr> else i) (0 + 1) xs
            = add_item p q xs"
        using neg Cons.IH by (simp only: map_idx_shift) simp
      with False neg show ?thesis by (simp add: Let_def)
    qed
  qed
qed

lemma items_add:
  "items (cartReducer s (ADD_TO_CART p qopt))
   = add_item p (case qopt of None \<Rightarrow> 1 | Some q \<Rightarrow> q) (items s)"
  using add_item_by_index [of p "items s"] by (simp add: Let_def)

section \<open>Each branch of the reducer, by recursion over the items\<close>

lemma cartReducer_add:
  "cartReducer s (ADD_TO_CART p qopt) =
     (let xs = add_item p (case qopt of None \<Rightarrow> 1 | Some q \<Rightarrow> q) (items s)
      in s\<lparr>items := xs, total := sum_price_quantity xs, itemCount := sum_quantity xs,
            loading := False, error := None\<rparr>)"
  using add_item_by_index [of p "items s"]
  by (simp add: Let_def reduce_total_sum reduce_count_sum)

lemma cartReducer_remove:
  "cartReducer s (REMOVE_FROM_CART pid) =
     (let xs = filter (\<lambda>i. item_id i \<noteq> pid) (items s)
      in s\<lparr>items := xs, total := sum_price_quantity xs, itemCount := sum_quantity xs,
            loading := False, error := None\<rparr>)"
  by (simp add: Let_def reduce_total_sum reduce_count_sum)

lemma cartReducer_update:
  "0 < q \<Longrightarrow> cartReducer s (UPDATE_QUANTITY pid q) =
     (let xs = map (\<lambda>i. if item_id i = pid then i\<lparr>quantity := q\<rparr> else i) (items s)
      in s\<lparr>items := xs, total := sum_price_quantity xs, itemCount := sum_quantity xs,
            loading := False, error := None\<rparr>)"
  by (simp add: Let_def reduce_total_sum reduce_count_sum)

lemma cartReducer_update_nonpos:
  "q \<le> 0 \<Longrightarrow> cartReducer s (UPDATE_QUANTITY pid q) = cartReducer s (REMOVE_FROM_CART pid)"
  by simp

lemma edit_consistent: "is_edit a \<Longrightarrow> derived_consistent (cartReducer s a)"
proof (cases a)
  case (UPDATE_QUANTITY pid q)
  then show ?thesis
    by (cases "0 < q")
       (simp_all add: cartReducer_update cartReducer_update_nonpos cartReducer_remove derived_consistent_def Let_def
                 del: cartReducer.simps(2-4))
qed (simp_all add: cartReducer_add cartReducer_remove derived_consistent_def Let_def
               del: cartReducer.simps(2-4))

lemma run_snoc: "run s (acts @ [a]) = cartReducer (run s acts) a"
  by (simp add: run_def)

lemma run_edits_consistent:
  "list_all is_edit acts \<Longrightarrow> derived_consistent s \<Longrightarrow> derived_consistent (run s acts)"
proof (induction acts rule: rev_induct)
  case Nil
  then show ?case by (simp add: run_def)
next
  case (snoc a acts)
  then show ?case by (simp add: run_snoc edit_consistent)
qed

lemma initial_consistent: "derived_consistent initialState"
  by (simp add: derived_consistent_def initialState_def)

subsection \<open>Prices stay present when every added product has one\<close>

lemma add_item_priced:
  "prod_price p \<noteq> None \<Longrightarrow> list_all has_price xs
   \<Longrightarrow> list_all has_price (add_item p q xs)"
  by (induction xs) (auto simp: line_item_def has_price_def)

lemma filter_priced:
  "list_all has_price xs \<Longrightarrow> list_all has_price (filter P xs)"
  by (induction xs) auto

lemma set_quantity_priced:
  "list_all has_price xs
   \<Longrightarrow> list_all has_price (map (\<lambda>i. if P i then i\<lparr>quantity := q\<rparr> else i) xs)"
  by (induction xs) (auto simp: has_price_def)

lemma edit_priced:
  assumes "is_edit a" and "priced a" and "list_all has_price (items s)"
  shows "list_all has_price (items (cartReducer s a))"
proof (cases a)
  case (ADD_TO_CART p qopt)
  with assms show ?thesis
    by (simp add: cartReducer_add Let_def add_item_priced del: cartReducer.simps(2-4))
next
  case (REMOVE_FROM_CART pid)
  with assms show ?thesis
    by (simp add: cartReducer_remove Let_def filter_priced del: cartReducer.simps(2-4))
next
  case (UPDATE_QUANTITY pid q)
  with assms show ?thesis
    by (cases "0 < q")
       (simp_all add: cartReducer_update cartReducer_update_nonpos cartReducer_remove Let_def filter_priced
                      set_quantity_priced del: cartReducer.simps(2-4))
qed (use assms in simp_all)

lemma run_edits_priced:
  "list_all is_edit acts \<Longrightarrow> list_all priced acts
   \<Longrightarrow> list_all has_price (items s)
   \<Longrightarrow> list_all has_price (items (run s acts))"
proof (induction acts rule: rev_induct)
  case Nil
  then show ?case by (simp add: run_def)
next
  case (snoc a acts)
  then show ?case by (simp add: run_snoc edit_priced)
qed

lemma priced_sum_is_number:
  "list_all has_price xs \<Longrightarrow> sum_price_quantity xs \<noteq> NaN"
proof (induction xs)
  case Nil
  show ?case by simp
next
  case (Cons x xs)
  then obtain a b where "price x = Some a" and "sum_price_quantity xs = Num b"
    by (cases "sum_price_quantity xs") (auto simp: has_price_def)
  then show ?case by simp
qed

subsection \<open>Identifiers stay unique\<close>

lemma add_item_ids:
  "set (map item_id (add_item p q xs)) = insert (prod_id p) (set (map item_id xs))"
  by (induction xs) (auto simp: line_item_def)

lemma add_item_distinct:
  "distinct (map item_id xs) \<Longrightarrow> distinct (map item_id (add_item p q xs))"
proof (induction xs)
  case Nil
  show ?case by simp
next
  case (Cons x xs)
  have "item_id x \<noteq> prod_id p \<Longrightarrow> item_id x \<notin> set (map item_id (add_item p q xs))"
    using Cons.prems by (simp add: add_item_ids del: set_map)
  with Cons show ?case by auto
qed

lemma set_quantity_ids:
  "map (item_id \<circ> (\<lambda>i. if P i then i\<lparr>quantity := q\<rparr> else i)) xs = map item_id xs"
  by (induction xs) auto

lemma mutation_unique: "is_mutation a \<Longrightarrow> unique_ids s \<Longrightarrow> unique_ids (cartReducer s a)"
proof (cases a)
  case (UPDATE_QUANTITY pid q)
  assume "unique_ids s"
  with UPDATE_QUANTITY show ?thesis
    by (cases "0 < q")
       (simp_all add: cartReducer_update cartReducer_update_nonpos cartReducer_remove unique_ids_def Let_def
                      set_quantity_ids distinct_map_filter del: cartReducer.simps(2-4))
qed (simp_all add: cartReducer_add cartReducer_remove unique_ids_def Let_def
                   add_item_distinct distinct_map_filter del: cartReducer.simps(2-4))

lemma run_mutations_unique:
  "list_all is_mutation acts \<Longrightarrow> unique_ids s \<Longrightarrow> unique_ids (run s acts)"
proof (induction acts rule: rev_induct)
  case Nil
  then show ?case by (simp add: run_def)
next
  case (snoc a acts)
  then show ?case by (simp add: run_snoc mutation_unique)
qed

subsection \<open>Adding a product whose id may already be there\<close>

lemma filter_absent: "a \<notin> set (map item_id xs) \<Longrightarrow> filter (\<lambda>i. item_id i = a) xs = []"
  by (induction xs) auto

lemma add_item_line:
  "distinct (map item_id xs) \<Longrightarrow>
   \<exists>y. filter (\<lambda>i. item_id i = prod_id p) (add_item p q xs) = [y] \<and>
       quantity y = (case find (\<lambda>i. item_id i = prod_id p) xs of None \<Rightarrow> 0
                     | Some i \<Rightarrow> quantity i) + q"
proof (induction xs)
  case Nil
  show ?case by (simp add: line_item_def)
next
  case (Cons x xs)
  show ?case
  proof (cases "item_id x = prod_id p")
    case True
    with Cons.prems have "filter (\<lambda>i. item_id i = prod_id p) xs = []"
      by (intro filter_absent) auto
    with True show ?thesis by simp
  next
    case False
    with Cons show ?thesis by simp
  qed
qed

lemma add_item_absent:
  "prod_id p \<notin> set (map item_id xs) \<Longrightarrow> add_item p q xs = xs @ [line_item p q]"
  by (induction xs) auto

lemma add_item_others:
  "filter (\<lambda>i. item_id i \<noteq> prod_id p) (add_item p q xs)
   = filter (\<lambda>i. item_id i \<noteq> prod_id p) xs"
  by (induction xs) (auto simp: line_item_def)

lemma sum_quantity_append: "sum_quantity (xs @ ys) = sum_quantity xs + sum_quantity ys"
  by (induction xs) simp_all

lemma sum_price_quantity_unpriced:
  "price y = None \<Longrightarrow> sum_price_quantity (xs @ [y]) = NaN"
proof (induction xs)
  case Nil
  then show ?case by simp
next
  case (Cons x xs)
  then show ?case by (cases "to_number (price x)") simp_all
qed

lemma map_unchanged:
  "pid \<notin> set (map item_id xs)
   \<Longrightarrow> map (\<lambda>i. if item_id i = pid then i\<lparr>quantity := q\<rparr> else i) xs = xs"
  by (induction xs) auto

lemma filter_unchanged:
  "pid \<notin> set (map item_id xs) \<Longrightarrow> filter (\<lambda>i. item_id i \<noteq> pid) xs = xs"
  by (induction xs) auto

lemma find_single: "filter P xs = [y] \<Longrightarrow> find P xs = Some y"
  by (induction xs) (auto split: if_splits)

lemma mutation_flags:
  "is_mutation a \<Longrightarrow> loading (cartReducer s a) = False \<and> error (cartReducer s a) = None"
proof (cases a)
  case (UPDATE_QUANTITY pid q)
  then show ?thesis by (cases "0 < q") (simp_all add: Let_def)
qed (simp_all add: Let_def)

section \<open>The claims\<close>

text \<open>
  C1. For every sequence of \<open>addToCart\<close>, \<open>removeFromCart\<close> and \<open>updateQuantity\<close> calls
  from the initial (empty) state, the state after each call, that is, after every prefix
  of the sequence, has \<open>total\<close> equal to the sum of \<open>price * quantity\<close> over its items and
  \<open>itemCount\<close> equal to the sum of \<open>quantity\<close>. When every added product carries a price
  the total is a number, so the equality is also JavaScript's.
\<close>

theorem derived_fields_after_each_call:
  assumes "list_all is_edit acts" and "n \<le> length acts"
  shows "derived_consistent (run initialState (take n acts)) \<and>
         (list_all priced acts \<longrightarrow> total (run initialState (take n acts)) \<noteq> NaN)"
proof -
  have edits: "list_all is_edit (take n acts)"
    using assms(1) by (auto simp: list_all_iff dest: in_set_takeD)
  have cons: "derived_consistent (run initialState (take n acts))"
    using edits initial_consistent by (rule run_edits_consistent)
  have "total (run initialState (take n acts)) \<noteq> NaN" if "list_all priced acts"
  proof -
    have "list_all priced (take n acts)"
      using that by (auto simp: list_all_iff dest: in_set_takeD)
    then have "list_all has_price (items (run initialState (take n acts)))"
      using edits by (intro run_edits_priced) (simp_all add: initialState_def)
    then have "sum_price_quantity (items (run initialState (take n acts))) \<noteq> NaN"
      by (rule priced_sum_is_number)
    with cons show ?thesis by (simp add: derived_consistent_def)
  qed
  with cons show ?thesis by blast
qed

theorem derived_fields_after_each_call_witness:
  "list_all is_edit
     [ADD_TO_CART sku1 (Some 1), UPDATE_QUANTITY (Some ''sku1'') 4,
      REMOVE_FROM_CART (Some ''sku1'')] \<and>
   (2::nat) \<le> length
     [ADD_TO_CART sku1 (Some 1), UPDATE_QUANTITY (Some ''sku1'') 4,
      REMOVE_FROM_CART (Some ''sku1'')] \<and>
   list_all priced
     [ADD_TO_CART sku1 (Some 1), UPDATE_QUANTITY (Some ''sku1'') 4,
      REMOVE_FROM_CART (Some ''sku1'')] \<and>
   derived_consistent (run initialState
     (take 2 [ADD_TO_CART sku1 (Some 1), UPDATE_QUANTITY (Some ''sku1'') 4,
              REMOVE_FROM_CART (Some ''sku1'')])) \<and>
   total (run initialState
     (take 2 [ADD_TO_CART sku1 (Some 1), UPDATE_QUANTITY (Some ''sku1'') 4,
              REMOVE_FROM_CART (Some ''sku1'')])) \<noteq> NaN \<and>
   total (run initialState
     (take 2 [ADD_TO_CART sku1 (Some 1), UPDATE_QUANTITY (Some ''sku1'') 4,
              REMOVE_FROM_CART (Some ''sku1'')])) = Num 4000 \<and>
   itemCount (run initialState
     (take 2 [ADD_TO_CART sku1 (Some 1), UPDATE_QUANTITY (Some ''sku1'') 4,
              REMOVE_FROM_CART (Some ''sku1'')])) = 4"
proof -
  let ?acts = "[ADD_TO_CART sku1 (Some 1), UPDATE_QUANTITY (Some ''sku1'') 4,
                REMOVE_FROM_CART (Some ''sku1'')]"
  have h1: "list_all is_edit ?acts" by simp
  have h2: "(2::nat) \<le> length ?acts" by simp
  have h3: "list_all priced ?acts" by (simp add: sku1_def)
  have v: "total (run initialState (take 2 ?acts)) = Num 4000"
    by (simp add: run_def initialState_def sku1_def line_item_def Let_def reduce_total_def)
  have c: "itemCount (run initialState (take 2 ?acts)) = 4"
    by (simp add: run_def initialState_def sku1_def line_item_def Let_def reduce_count_def)
  from derived_fields_after_each_call [OF h1 h2] h1 h2 h3 v c show ?thesis by blast
qed

text \<open>
  C2. In a cart state whose items are unique by id, \<open>addToCart(P, m)\<close> followed by
  \<open>addToCart(P, n)\<close> with positive \<open>m\<close> and \<open>n\<close> leaves exactly one line item with the id
  of \<open>P\<close>, and its quantity is the quantity stored for that id before the two calls
  (\<open>0\<close> when \<open>P\<close> was not in the cart) plus \<open>m + n\<close>.
\<close>

theorem add_twice_accumulates:
  assumes "unique_ids s" and "0 < m" and "0 < n"
  shows "\<exists>x. filter (\<lambda>i. item_id i = prod_id P)
               (items (addToCart (addToCart s P (Some m)) P (Some n))) = [x] \<and>
             quantity x = quantity_of s (prod_id P) + (m + n)"
proof -
  let ?s1 = "addToCart s P (Some m)"
  have items1: "items ?s1 = add_item P m (items s)"
    by (simp add: addToCart_def cartReducer_add Let_def del: cartReducer.simps(2-4))
  have items2: "items (addToCart ?s1 P (Some n)) = add_item P n (items ?s1)"
    by (simp add: addToCart_def cartReducer_add Let_def del: cartReducer.simps(2-4))
  have d0: "distinct (map item_id (items s))"
    using assms(1) by (simp add: unique_ids_def)
  then have d1: "distinct (map item_id (items ?s1))"
    unfolding items1 by (rule add_item_distinct)
  obtain y where y: "filter (\<lambda>i. item_id i = prod_id P) (items ?s1) = [y]"
      "quantity y = quantity_of s (prod_id P) + m"
    using add_item_line [OF d0, of P m] unfolding items1 quantity_of_def by blast
  have found: "find (\<lambda>i. item_id i = prod_id P) (items ?s1) = Some y"
    using y(1) by (rule find_single)
  obtain x where x: "filter (\<lambda>i. item_id i = prod_id P) (add_item P n (items ?s1)) = [x]"
      "quantity x = quantity y + n"
    using add_item_line [OF d1, of P n] found by auto
  from x y(2) show ?thesis unfolding items2 by auto
qed

theorem add_twice_accumulates_witness:
  "unique_ids one_mug \<and> (0::int) < 2 \<and> (0::int) < 3 \<and>
   (\<exists>x. filter (\<lambda>i. item_id i = prod_id sku1)
            (items (addToCart (addToCart one_mug sku1 (Some 2)) sku1 (Some 3))) = [x] \<and>
        quantity x = quantity_of one_mug (prod_id sku1) + (2 + 3)) \<and>
   quantity_of one_mug (prod_id sku1) = 1"
proof -
  have h1: "unique_ids one_mug"
    by (simp add: unique_ids_def one_mug_def)
  have h2: "(0::int) < 2" and h3: "(0::int) < 3" by simp_all
  have q: "quantity_of one_mug (prod_id sku1) = 1"
    by (simp add: quantity_of_def one_mug_def sku1_def line_item_def)
  from add_twice_accumulates [OF h1 h2 h3, of sku1] h1 q show ?thesis by simp
qed

lemma set_quantity_positive:
  "0 < q \<Longrightarrow>
   \<forall>i \<in> set (map (\<lambda>i. if item_id i = pid then i\<lparr>quantity := q\<rparr> else i) xs).
     item_id i = pid \<longrightarrow> 0 < quantity i"
  by (induction xs) simp_all

lemma filter_leaves_none:
  "\<forall>i \<in> set (filter (\<lambda>i. item_id i \<noteq> pid) xs). item_id i = pid \<longrightarrow> 0 < quantity i"
  by (induction xs) simp_all

lemma items_update_positive:
  "0 < q \<Longrightarrow> items (updateQuantity s pid q)
     = map (\<lambda>i. if item_id i = pid then i\<lparr>quantity := q\<rparr> else i) (items s)"
  by (simp add: updateQuantity_def cartReducer_update Let_def del: cartReducer.simps(2-4))

lemma items_update_nonpositive:
  "\<not> 0 < q \<Longrightarrow> items (updateQuantity s pid q) = filter (\<lambda>i. item_id i \<noteq> pid) (items s)"
  by (simp add: updateQuantity_def cartReducer_update_nonpos cartReducer_remove Let_def
           del: cartReducer.simps(2-4))

text \<open>
  C3. For every cart state, product id and quantity \<open>q \<le> 0\<close>, \<open>updateQuantity\<close> yields the
  state that \<open>removeFromCart\<close> yields; the result has no line item with that id and holds
  only line items of the prior state. For any quantity, a line item that
  \<open>updateQuantity\<close> leaves under the id has a positive quantity.
\<close>

theorem update_nonpositive_is_remove:
  assumes "q \<le> 0"
  shows "updateQuantity s pid q = removeFromCart s pid \<and>
         pid \<notin> set (map item_id (items (updateQuantity s pid q))) \<and>
         set (items (updateQuantity s pid q)) \<subseteq> set (items s) \<and>
         (\<forall>i \<in> set (items (updateQuantity s pid q')). item_id i = pid \<longrightarrow> 0 < quantity i)"
proof -
  have eq: "updateQuantity s pid q = removeFromCart s pid"
    using assms by (simp add: updateQuantity_def removeFromCart_def)
  have rem: "items (removeFromCart s pid) = filter (\<lambda>i. item_id i \<noteq> pid) (items s)"
    by (simp add: removeFromCart_def Let_def)
  have absent: "pid \<notin> set (map item_id (items (removeFromCart s pid)))"
    unfolding rem by auto
  have sub: "set (items (removeFromCart s pid)) \<subseteq> set (items s)"
    unfolding rem by auto
  have pos: "\<forall>i \<in> set (items (updateQuantity s pid q')). item_id i = pid \<longrightarrow> 0 < quantity i"
  proof (cases "0 < q'")
    case True
    then show ?thesis
      unfolding items_update_positive [OF True] by (rule set_quantity_positive)
  next
    case False
    show ?thesis
      unfolding items_update_nonpositive [OF False] by (rule filter_leaves_none)
  qed
  show ?thesis
    unfolding eq using absent sub pos by (intro conjI) simp_all
qed

theorem update_nonpositive_is_remove_witness:
  "(- 5::int) \<le> 0 \<and>
   updateQuantity one_mug (Some ''sku1'') (- 5) = removeFromCart one_mug (Some ''sku1'') \<and>
   items (updateQuantity one_mug (Some ''sku1'') (- 5)) = [] \<and>
   items (updateQuantity one_mug (Some ''sku1'') 4) = [line_item sku1 4] \<and>
   item_id (line_item sku1 4) = Some ''sku1'' \<and> 0 < quantity (line_item sku1 4)"
proof -
  have h: "(- 5::int) \<le> 0" by simp
  have a: "items (updateQuantity one_mug (Some ''sku1'') (- 5)) = []"
    by (simp add: updateQuantity_def one_mug_def line_item_def sku1_def Let_def)
  have b: "items (updateQuantity one_mug (Some ''sku1'') 4) = [line_item sku1 4]"
    by (simp add: updateQuantity_def one_mug_def line_item_def sku1_def Let_def)
  have c: "item_id (line_item sku1 4) = Some ''sku1'' \<and> 0 < quantity (line_item sku1 4)"
    by (simp add: line_item_def sku1_def)
  from update_nonpositive_is_remove [OF h, of one_mug "Some ''sku1''" 4] h a b c
  show ?thesis by blast
qed

text \<open>
  C6. For every sequence of \<open>addToCart\<close>, \<open>removeFromCart\<close>, \<open>updateQuantity\<close> and
  \<open>clearCart\<close> calls from the initial state, no two line items of the resulting state
  have the same id. (Products without an id are covered as well: an absent id is matched
  like any other.)
\<close>

theorem ids_stay_unique:
  assumes "list_all is_mutation acts"
  shows "unique_ids (run initialState acts)"
  using assms by (rule run_mutations_unique) (simp add: unique_ids_def initialState_def)

theorem ids_stay_unique_witness:
  "list_all is_mutation
     [ADD_TO_CART sku1 (Some 2), ADD_TO_CART sku2 None, ADD_TO_CART sku1 (Some 3),
      UPDATE_QUANTITY (Some ''sku2'') 7] \<and>
   unique_ids (run initialState
     [ADD_TO_CART sku1 (Some 2), ADD_TO_CART sku2 None, ADD_TO_CART sku1 (Some 3),
      UPDATE_QUANTITY (Some ''sku2'') 7]) \<and>
   items (run initialState
     [ADD_TO_CART sku1 (Some 2), ADD_TO_CART sku2 None, ADD_TO_CART sku1 (Some 3),
      UPDATE_QUANTITY (Some ''sku2'') 7]) = [line_item sku1 5, line_item sku2 7]"
proof -
  let ?acts = "[ADD_TO_CART sku1 (Some 2), ADD_TO_CART sku2 None, ADD_TO_CART sku1 (Some 3),
                UPDATE_QUANTITY (Some ''sku2'') 7]"
  have h: "list_all is_mutation ?acts" by simp
  have v: "items (run initialState ?acts) = [line_item sku1 5, line_item sku2 7]"
    by (simp add: run_def initialState_def sku1_def sku2_def line_item_def Let_def)
  from ids_stay_unique [OF h] h v show ?thesis by blast
qed

text \<open>
  C4. The claim that \<open>clearCart\<close> leaves \<open>loading\<close> and \<open>error\<close> as they were fails: the
  \<open>CLEAR_CART\<close> branch writes \<open>loading: false\<close> and \<open>error: null\<close>. A state that carries
  an error loses it, and a state that is loading stops loading.
\<close>

theorem clearCart_frame_counterexample:
  "error (clearCart \<lparr>items = [line_item sku1 1], total = Num 1000, itemCount = 1,
                      loading = False, error = Some ''Failed to load cart''\<rparr>)
     \<noteq> error \<lparr>items = [line_item sku1 1], total = Num 1000, itemCount = 1,
               loading = False, error = Some ''Failed to load cart''\<rparr> \<and>
   loading (clearCart \<lparr>items = [], total = Num 0, itemCount = 0,
                        loading = True, error = None\<rparr>)
     \<noteq> loading \<lparr>items = [], total = Num 0, itemCount = 0,
                 loading = True, error = None\<rparr>"
  by (simp add: clearCart_def)

text \<open>
  C4, amended. For every cart state, \<open>clearCart\<close> yields no items, total \<open>0\<close>, item count
  \<open>0\<close>, \<open>loading = false\<close> and \<open>error = null\<close>.
\<close>

theorem clearCart_resets:
  "items (clearCart s) = [] \<and> total (clearCart s) = Num 0 \<and> itemCount (clearCart s) = 0 \<and>
   loading (clearCart s) = False \<and> error (clearCart s) = None"
  by (simp add: clearCart_def)

text \<open>
  C5. The claim that \<open>removeFromCart\<close> and \<open>updateQuantity\<close> with an unknown id leave all
  five fields as they were fails: both branches write \<open>loading: false\<close> and \<open>error: null\<close>
  and recompute the derived fields. A state flagged with an error loses the flag.
\<close>

theorem unknown_id_noop_counterexample:
  "removeFromCart \<lparr>items = [line_item sku1 1], total = Num 1000, itemCount = 1,
                   loading = False, error = Some ''Failed to load cart''\<rparr> (Some ''sku9'')
     \<noteq> \<lparr>items = [line_item sku1 1], total = Num 1000, itemCount = 1,
         loading = False, error = Some ''Failed to load cart''\<rparr> \<and>
   updateQuantity \<lparr>items = [line_item sku1 1], total = Num 1000, itemCount = 1,
                   loading = False, error = Some ''Failed to load cart''\<rparr> (Some ''sku9'') 5
     \<noteq> \<lparr>items = [line_item sku1 1], total = Num 1000, itemCount = 1,
         loading = False, error = Some ''Failed to load cart''\<rparr>"
  by (simp add: removeFromCart_def updateQuantity_def Let_def line_item_def sku1_def)

text \<open>
  C5, amended. For every cart state and every product id that no item has,
  \<open>removeFromCart\<close> and \<open>updateQuantity\<close> with a positive quantity leave \<open>items\<close> as it
  was, set \<open>total\<close> and \<open>itemCount\<close> to the sums over those items, and set
  \<open>loading = false\<close> and \<open>error = null\<close>. The state is therefore unchanged when its derived
  fields were consistent, it was not loading and it had no error.
\<close>

theorem unknown_id_keeps_items:
  assumes "pid \<notin> set (map item_id (items s))" and "0 < q"
  shows "removeFromCart s pid = updateQuantity s pid q \<and>
         items (removeFromCart s pid) = items s \<and>
         total (removeFromCart s pid) = sum_price_quantity (items s) \<and>
         itemCount (removeFromCart s pid) = sum_quantity (items s) \<and>
         loading (removeFromCart s pid) = False \<and>
         error (removeFromCart s pid) = None \<and>
         (derived_consistent s \<and> \<not> loading s \<and> error s = None
            \<longrightarrow> removeFromCart s pid = s)"
proof -
  have r: "removeFromCart s pid =
           s\<lparr>items := items s, total := sum_price_quantity (items s),
             itemCount := sum_quantity (items s), loading := False, error := None\<rparr>"
    using assms(1)
    by (simp add: removeFromCart_def cartReducer_remove Let_def filter_unchanged
             del: cartReducer.simps(2-4))
  have u: "updateQuantity s pid q =
           s\<lparr>items := items s, total := sum_price_quantity (items s),
             itemCount := sum_quantity (items s), loading := False, error := None\<rparr>"
    using assms
    by (simp add: updateQuantity_def cartReducer_update Let_def map_unchanged
             del: cartReducer.simps(2-4))
  have same: "removeFromCart s pid = s"
    if "derived_consistent s \<and> \<not> loading s \<and> error s = None"
    using that unfolding r by (simp add: derived_consistent_def)
  show ?thesis
    using same unfolding u unfolding r by simp
qed

theorem unknown_id_keeps_items_witness:
  "Some ''sku9'' \<notin> set (map item_id (items one_mug)) \<and> (0::int) < 5 \<and>
   derived_consistent one_mug \<and> \<not> loading one_mug \<and> error one_mug = None \<and>
   removeFromCart one_mug (Some ''sku9'') = one_mug \<and>
   updateQuantity one_mug (Some ''sku9'') 5 = one_mug"
proof -
  have h1: "Some ''sku9'' \<notin> set (map item_id (items one_mug))"
    by (simp add: one_mug_def line_item_def sku1_def)
  have h2: "(0::int) < 5" by simp
  have h3: "derived_consistent one_mug \<and> \<not> loading one_mug \<and> error one_mug = None"
    by (simp add: derived_consistent_def one_mug_def line_item_def sku1_def)
  from unknown_id_keeps_items [OF h1 h2] h1 h2 h3 show ?thesis by metis
qed

text \<open>
  C7. The claim that a failed load adopts the empty cart fails: the \<open>catch\<close> of \<open>loadCart\<close>
  dispatches only \<open>SET_ERROR\<close>, which keeps \<open>items\<close>, \<open>total\<close> and \<open>itemCount\<close>. With one
  mug in the cart and a store whose read throws, the mug is still there after the load.
\<close>

theorem load_failure_empties_counterexample:
  "items (fst (loadCart None unreadable_world one_mug)) = [line_item sku1 1] \<and>
   total (fst (loadCart None unreadable_world one_mug)) = Num 1000 \<and>
   itemCount (fst (loadCart None unreadable_world one_mug)) = 1 \<and>
   items (fst (loadCart None corrupt_world one_mug)) \<noteq> []"
  by (simp add: loadCart_def getItem_def unreadable_world_def corrupt_world_def
                quiet_world_def one_mug_def cart_key_def userId_def Let_def)

text \<open>
  C7, amended. For every prior cart state and every load whose read of the durable store
  throws or returns non-empty text that does not parse, the load completes with
  \<open>error = 'Failed to load cart'\<close> and \<open>loading = false\<close>, and \<open>items\<close>, \<open>total\<close> and
  \<open>itemCount\<close> are those of the prior state; the failure is logged.
\<close>

theorem load_failure_flags_and_keeps_cart:
  assumes "read_fails w \<or> store w (cart_key u) = Some Unparseable"
  shows "error (fst (loadCart u w s)) = Some ''Failed to load cart'' \<and>
         loading (fst (loadCart u w s)) = False \<and>
         items (fst (loadCart u w s)) = items s \<and>
         total (fst (loadCart u w s)) = total s \<and>
         itemCount (fst (loadCart u w s)) = itemCount s \<and>
         snd (loadCart u w s) = console_error w ''Error loading cart:''"
proof (cases "read_fails w")
  case True
  then show ?thesis by (simp add: loadCart_def getItem_def Let_def)
next
  case False
  with assms have "store w (cart_key u) = Some Unparseable" by simp
  with False show ?thesis by (simp add: loadCart_def getItem_def Let_def)
qed

theorem load_failure_flags_and_keeps_cart_witness:
  "(read_fails corrupt_world \<or> store corrupt_world (cart_key None) = Some Unparseable) \<and>
   error (fst (loadCart None corrupt_world one_mug)) = Some ''Failed to load cart'' \<and>
   loading (fst (loadCart None corrupt_world one_mug)) = False \<and>
   items (fst (loadCart None corrupt_world one_mug)) = items one_mug \<and>
   total (fst (loadCart None corrupt_world one_mug)) = total one_mug \<and>
   itemCount (fst (loadCart None corrupt_world one_mug)) = itemCount one_mug"
proof -
  have h: "read_fails corrupt_world \<or> store corrupt_world (cart_key None) = Some Unparseable"
    by (simp add: corrupt_world_def quiet_world_def cart_key_def userId_def)
  from load_failure_flags_and_keeps_cart [OF h, where s = one_mug] h show ?thesis by blast
qed

text \<open>
  C8. The claim that a failed write sets the \<open>error\<close> field fails: the \<open>catch\<close> of the save
  effect only logs. After \<open>addToCart\<close> with a store whose write throws, \<open>error\<close> is null.
\<close>

theorem write_failure_sets_error_counterexample:
  "error (fst (mutate None unwritable_world initialState (ADD_TO_CART sku1 None))) = None \<and>
   console (snd (mutate None unwritable_world initialState (ADD_TO_CART sku1 None)))
     = [''Error saving cart:'']"
  by (simp add: mutate_def saveCart_def setItem_def unwritable_world_def quiet_world_def
                console_error_def initialState_def Let_def)

text \<open>
  C8, amended. For every mutation (\<open>addToCart\<close>, \<open>removeFromCart\<close>, \<open>updateQuantity\<close>,
  \<open>clearCart\<close>), a failure of the write that follows it is caught and logged; the state is
  the one the mutation produced, with \<open>error\<close> still null, and the store is not touched
  (no rollback, no second attempt).
\<close>

theorem write_failure_keeps_state:
  assumes "write_fails w" and "is_mutation a"
  shows "fst (mutate u w s a) = cartReducer s a \<and>
         error (fst (mutate u w s a)) = None \<and>
         store (snd (mutate u w s a)) = store w \<and>
         console (snd (mutate u w s a)) = console w @ [''Error saving cart:'']"
proof -
  have flags: "loading (cartReducer s a) = False \<and> error (cartReducer s a) = None"
    using assms(2) by (rule mutation_flags)
  have "mutate u w s a = (cartReducer s a, console_error w ''Error saving cart:'')"
    using assms(1) flags by (simp add: mutate_def saveCart_def setItem_def)
  with flags show ?thesis by (simp add: console_error_def)
qed

theorem write_failure_keeps_state_witness:
  "write_fails unwritable_world \<and> is_mutation (ADD_TO_CART sku1 None) \<and>
   fst (mutate None unwritable_world initialState (ADD_TO_CART sku1 None))
     = cartReducer initialState (ADD_TO_CART sku1 None) \<and>
   error (fst (mutate None unwritable_world initialState (ADD_TO_CART sku1 None))) = None \<and>
   store (snd (mutate None unwritable_world initialState (ADD_TO_CART sku1 None)))
     = store unwritable_world"
proof -
  have h1: "write_fails unwritable_world"
    by (simp add: unwritable_world_def quiet_world_def)
  have h2: "is_mutation (ADD_TO_CART sku1 None)" by simp
  from write_failure_keeps_state [OF h1 h2, where u = None and s = initialState] h1 h2
  show ?thesis by blast
qed

text \<open>
  C9. The claim that \<open>addToCart\<close> rejects a product without \<open>id\<close> or \<open>price\<close> fails: the
  \<open>ADD_TO_CART\<close> branch validates nothing. With one mug in the cart, adding a descriptor
  that has neither field appends a line item without id and price, and \<open>total\<close> becomes
  \<open>NaN\<close>.
\<close>

theorem malformed_product_rejected_counterexample:
  "items (addToCart one_mug nameless None) = [line_item sku1 1, line_item nameless 1] \<and>
   total (addToCart one_mug nameless None) = NaN \<and>
   itemCount (addToCart one_mug nameless None) = 2 \<and>
   addToCart one_mug nameless None \<noteq> one_mug"
proof -
  have i: "items (addToCart one_mug nameless None) = [line_item sku1 1, line_item nameless 1]"
    by (simp add: addToCart_def one_mug_def nameless_def sku1_def line_item_def Let_def)
  have t: "total (addToCart one_mug nameless None) = NaN"
    by (simp add: addToCart_def one_mug_def nameless_def sku1_def line_item_def Let_def
                  reduce_total_def)
  have c: "itemCount (addToCart one_mug nameless None) = 2"
    by (simp add: addToCart_def one_mug_def nameless_def sku1_def line_item_def Let_def
                  reduce_count_def)
  have "total one_mug \<noteq> NaN" by (simp add: one_mug_def)
  with t have "addToCart one_mug nameless None \<noteq> one_mug" by metis
  with i t c show ?thesis by blast
qed

text \<open>
  C9, amended. For every cart state and every product descriptor without \<open>id\<close> or without
  \<open>price\<close>, \<open>addToCart\<close> is not rejected. The line items whose id differs from the
  product's are kept as they were, in their order (an absent id equals only an absent id).
  When no line item has the product's id, the descriptor is appended as a new line item
  with the given quantity, \<open>itemCount\<close> becomes the sum of the old quantities plus that
  quantity, and \<open>total\<close> is \<open>NaN\<close> if the price is absent.
\<close>

theorem malformed_product_admitted:
  assumes "prod_id p = None \<or> prod_price p = None"
  shows "filter (\<lambda>i. item_id i \<noteq> prod_id p) (items (addToCart s p (Some q)))
           = filter (\<lambda>i. item_id i \<noteq> prod_id p) (items s) \<and>
         (prod_id p \<notin> set (map item_id (items s)) \<longrightarrow>
            items (addToCart s p (Some q)) = items s @ [line_item p q] \<and>
            itemCount (addToCart s p (Some q)) = sum_quantity (items s) + q \<and>
            (prod_price p = None \<longrightarrow> total (addToCart s p (Some q)) = NaN))"
proof -
  have st: "addToCart s p (Some q) =
            s\<lparr>items := add_item p q (items s),
              total := sum_price_quantity (add_item p q (items s)),
              itemCount := sum_quantity (add_item p q (items s)),
              loading := False, error := None\<rparr>"
    by (simp add: addToCart_def cartReducer_add Let_def del: cartReducer.simps(2-4))
  have others: "filter (\<lambda>i. item_id i \<noteq> prod_id p) (items (addToCart s p (Some q)))
                = filter (\<lambda>i. item_id i \<noteq> prod_id p) (items s)"
    unfolding st by (simp add: add_item_others)
  have fresh: "items (addToCart s p (Some q)) = items s @ [line_item p q] \<and>
               itemCount (addToCart s p (Some q)) = sum_quantity (items s) + q \<and>
               (prod_price p = None \<longrightarrow> total (addToCart s p (Some q)) = NaN)"
    if "prod_id p \<notin> set (map item_id (items s))"
  proof -
    have a: "add_item p q (items s) = items s @ [line_item p q]"
      using that by (rule add_item_absent)
    have "price (line_item p q) = None" if "prod_price p = None"
      using that by (simp add: line_item_def)
    then show ?thesis
      unfolding st a
      by (simp add: sum_quantity_append sum_price_quantity_unpriced line_item_def)
  qed
  from others fresh show ?thesis by blast
qed

theorem malformed_product_admitted_witness:
  "(prod_id nameless = None \<or> prod_price nameless = None) \<and>
   prod_id nameless \<notin> set (map item_id (items one_mug)) \<and>
   prod_price nameless = None \<and>
   items (addToCart one_mug nameless (Some 1)) = items one_mug @ [line_item nameless 1] \<and>
   itemCount (addToCart one_mug nameless (Some 1)) = sum_quantity (items one_mug) + 1 \<and>
   total (addToCart one_mug nameless (Some 1)) = NaN"
proof -
  have h1: "prod_id nameless = None \<or> prod_price nameless = None"
    by (simp add: nameless_def)
  have h2: "prod_id nameless \<notin> set (map item_id (items one_mug))"
    by (simp add: nameless_def one_mug_def line_item_def sku1_def)
  have h3: "prod_price nameless = None"
    by (simp add: nameless_def)
  from malformed_product_admitted [OF h1, where s = one_mug and q = 1] h1 h2 h3 show ?thesis by blast
qed

lemma load_stored_blob:
  assumes "\<not> read_fails w" and "store w (cart_key u) = Some (Json b)"
    and "blob_items b = Some xs" and "blob_total b = Some t" and "blob_itemCount b = Some c"
  shows "fst (loadCart u w s) = s\<lparr>items := xs, total := Num t, itemCount := c,
                                   loading := False, error := None\<rparr>"
    and "snd (loadCart u w s) = w"
  using assms by (simp_all add: loadCart_def getItem_def Let_def)

text \<open>
  C10. The load adopts the persisted \<open>items\<close>, \<open>total\<close> and \<open>itemCount\<close> as they are stored
  and recomputes nothing: for every stored object in which the three fields are present,
  every readable store that holds it under the key of the user, and every prior state,
  the cart after the load has exactly the stored items, the stored total and the stored
  item count, so whenever the stored total is not the sum of \<open>price * quantity\<close> over the
  stored items, the loaded state is not consistent. Such a stored object exists: after
  loading it, from any prior state, \<open>total\<close> is not the sum over \<open>items\<close>.
\<close>

theorem load_adopts_stored_fields:
  "(\<forall>b xs t c w u s.
      \<not> read_fails w \<and> store w (cart_key u) = Some (Json b) \<and>
      blob_items b = Some xs \<and> blob_total b = Some t \<and> blob_itemCount b = Some c
      \<longrightarrow> items (fst (loadCart u w s)) = xs \<and>
          total (fst (loadCart u w s)) = Num t \<and>
          itemCount (fst (loadCart u w s)) = c \<and>
          (Num t \<noteq> sum_price_quantity xs \<longrightarrow>
             total (fst (loadCart u w s))
               \<noteq> sum_price_quantity (items (fst (loadCart u w s))) \<and>
             \<not> derived_consistent (fst (loadCart u w s)))) \<and>
   (\<exists>b xs t c w u.
      \<not> read_fails w \<and> store w (cart_key u) = Some (Json b) \<and>
      blob_items b = Some xs \<and> blob_total b = Some t \<and> blob_itemCount b = Some c \<and>
      Num t \<noteq> sum_price_quantity xs \<and>
      (\<forall>s. items (fst (loadCart u w s)) = xs \<and>
           total (fst (loadCart u w s)) = Num t \<and>
           itemCount (fst (loadCart u w s)) = c \<and>
           total (fst (loadCart u w s))
             \<noteq> sum_price_quantity (items (fst (loadCart u w s))) \<and>
           \<not> derived_consistent (fst (loadCart u w s))))"
proof -
  have adopt: "items (fst (loadCart u w s)) = xs \<and>
               total (fst (loadCart u w s)) = Num t \<and>
               itemCount (fst (loadCart u w s)) = c \<and>
               (Num t \<noteq> sum_price_quantity xs \<longrightarrow>
                  total (fst (loadCart u w s))
                    \<noteq> sum_price_quantity (items (fst (loadCart u w s))) \<and>
                  \<not> derived_consistent (fst (loadCart u w s)))"
    if "\<not> read_fails w" and "store w (cart_key u) = Some (Json b)"
      and "blob_items b = Some xs" and "blob_total b = Some t" and "blob_itemCount b = Some c"
    for b xs t c w u s
    unfolding load_stored_blob(1) [OF that]
    by (simp add: derived_consistent_def)
  have r: "\<not> read_fails stale_world"
    by (simp add: stale_world_def quiet_world_def)
  have k: "store stale_world (cart_key None) = Some (Json stale_blob)"
    by (simp add: stale_world_def quiet_world_def cart_key_def userId_def)
  have f: "blob_items stale_blob = Some [line_item sku1 1]"
      "blob_total stale_blob = Some 5" "blob_itemCount stale_blob = Some 1"
    by (simp_all add: stale_blob_def)
  have d: "Num 5 \<noteq> sum_price_quantity [line_item sku1 1]"
    by (simp add: line_item_def sku1_def)
  have stale: "items (fst (loadCart None stale_world s)) = [line_item sku1 1] \<and>
               total (fst (loadCart None stale_world s)) = Num 5 \<and>
               itemCount (fst (loadCart None stale_world s)) = 1 \<and>
               total (fst (loadCart None stale_world s))
                 \<noteq> sum_price_quantity (items (fst (loadCart None stale_world s))) \<and>
               \<not> derived_consistent (fst (loadCart None stale_world s))" for s
    using adopt [OF r k f, of s] d by blast
  have ex: "\<exists>b xs t c w u.
      \<not> read_fails w \<and> store w (cart_key u) = Some (Json b) \<and>
      blob_items b = Some xs \<and> blob_total b = Some t \<and> blob_itemCount b = Some c \<and>
      Num t \<noteq> sum_price_quantity xs \<and>
      (\<forall>s. items (fst (loadCart u w s)) = xs \<and>
           total (fst (loadCart u w s)) = Num t \<and>
           itemCount (fst (loadCart u w s)) = c \<and>
           total (fst (loadCart u w s))
             \<noteq> sum_price_quantity (items (fst (loadCart u w s))) \<and>
           \<not> derived_consistent (fst (loadCart u w s)))"
    using r k f d stale by blast
  from adopt ex show ?thesis by blast
qed

theorem load_adopts_stored_fields_witness:
  "\<not> read_fails stale_world \<and>
   store stale_world (cart_key None) = Some (Json stale_blob) \<and>
   blob_items stale_blob = Some [line_item sku1 1] \<and>
   blob_total stale_blob = Some 5 \<and>
   blob_itemCount stale_blob = Some 1 \<and>
   Num 5 \<noteq> sum_price_quantity [line_item sku1 1] \<and>
   items (fst (loadCart None stale_world one_mug)) = [line_item sku1 1] \<and>
   total (fst (loadCart None stale_world one_mug)) = Num 5 \<and>
   itemCount (fst (loadCart None stale_world one_mug)) = 1 \<and>
   total (fst (loadCart None stale_world one_mug))
     \<noteq> sum_price_quantity (items (fst (loadCart None stale_world one_mug))) \<and>
   \<not> derived_consistent (fst (loadCart None stale_world one_mug))"
proof -
  have r: "\<not> read_fails stale_world"
    by (simp add: stale_world_def quiet_world_def)
  have k: "store stale_world (cart_key None) = Some (Json stale_blob)"
    by (simp add: stale_world_def quiet_world_def cart_key_def userId_def)
  have f: "blob_items stale_blob = Some [line_item sku1 1] \<and>
           blob_total stale_blob = Some 5 \<and> blob_itemCount stale_blob = Some 1"
    by (simp add: stale_blob_def)
  have d: "Num 5 \<noteq> sum_price_quantity [line_item sku1 1]"
    by (simp add: line_item_def sku1_def)
  have "\<not> read_fails stale_world \<and> store stale_world (cart_key None) = Some (Json stale_blob) \<and>
        blob_items stale_blob = Some [line_item sku1 1] \<and> blob_total stale_blob = Some 5 \<and>
        blob_itemCount stale_blob = Some 1
        \<longrightarrow> items (fst (loadCart None stale_world one_mug)) = [line_item sku1 1] \<and>
            total (fst (loadCart None stale_world one_mug)) = Num 5 \<and>
            itemCount (fst (loadCart None stale_world one_mug)) = 1 \<and>
            (Num 5 \<noteq> sum_price_quantity [line_item sku1 1] \<longrightarrow>
               total (fst (loadCart None stale_world one_mug))
                 \<noteq> sum_price_quantity (items (fst (loadCart None stale_world one_mug))) \<and>
               \<not> derived_consistent (fst (loadCart None stale_world one_mug)))"
    using load_adopts_stored_fields by blast
  with r k f d show ?thesis by blast
qed

end
